theory Spec2Isabelle
  imports Main "HOL-Library.Word"
begin

section \<open>The optional reference of Abseil: a nullable, non-owning view\<close>

text \<open>
  The development embeds \<^verbatim>\<open>absl/types/optional_ref.h\<close>. An \<^verbatim>\<open>optional_ref<T>\<close> holds
  one data member, \<^verbatim>\<open>T* const ptr_\<close>. Everything the header does at run time is a branch
  on that pointer being null; everything else it does is decided by the compiler
  (deleted overloads, \<^verbatim>\<open>enable_if\<close> gates, static assertions). Both layers are modelled:
  a rejected program is the value \<open>Inl IllFormed\<close>, a run-time failure is one of the
  other values of \<open>failure\<close>.
\<close>

subsection \<open>Addresses, pointers, memory\<close>

text \<open>
  An object lives at an address. A pointer \<^verbatim>\<open>T*\<close> is either \<^verbatim>\<open>nullptr\<close> or the address of
  an object; a reference \<^verbatim>\<open>T&\<close> always designates an object, so it is an address. The
  objects of one type are read through a memory that gives the value stored at each
  address. Keeping the referent alive is the caller's obligation (the header binds to
  temporaries on purpose), so the memory is total.
\<close>

type_synonym addr = nat

datatype pointer = Null | Addr addr

definition nullptr :: pointer where
  "nullptr = Null"

type_synonym 'a memory = "addr \<Rightarrow> 'a"

subsection \<open>Failures and build configuration\<close>

datatype failure =
    IllFormed
  | BadOptionalAccess
  | Terminated
  | HardeningAbort
  | UndefinedBehavior

text \<open>
  The two build switches the header depends on: whether exceptions are available
  (\<^verbatim>\<open>ABSL_HAVE_EXCEPTIONS\<close> in the test of \<^verbatim>\<open>value()\<close>) and whether hardening is on
  (\<^verbatim>\<open>ABSL_OPTION_HARDENED\<close> with \<^verbatim>\<open>NDEBUG\<close>, as \<^verbatim>\<open>hardening.h\<close> tests it).
\<close>

record build =
  have_exceptions :: bool
  hardened :: bool

text \<open>
  Modelled from the spec: \<^verbatim>\<open>std::optional<T>::value()\<close> belongs to the standard library,
  which is not among the sources. On an engaged optional it returns the contained
  value; on an empty one it signals the error, as a catchable
  \<^verbatim>\<open>std::bad_optional_access\<close> where the build has exceptions and as process
  termination where it has not.
\<close>

definition std_optional_value :: "build \<Rightarrow> 'a option \<Rightarrow> failure + 'a" where
  "std_optional_value cfg opt =
     (case opt of
        Some v \<Rightarrow> Inr v
      | None \<Rightarrow> Inl (if have_exceptions cfg then BadOptionalAccess else Terminated))"

text \<open>
  Modelled from the spec: \<^verbatim>\<open>ABSL_HARDENING_ASSERT\<close> is defined in \<^verbatim>\<open>absl/base/macros.h\<close>,
  which is not among the sources. In a hardened build a violated condition aborts the
  process; otherwise the check is absent and execution continues. The result is the
  failure raised, if any.
\<close>

definition ABSL_HARDENING_ASSERT :: "build \<Rightarrow> bool \<Rightarrow> failure option" where
  "ABSL_HARDENING_ASSERT cfg cond =
     (if hardened cfg \<and> \<not> cond then Some HardeningAbort else None)"

text \<open>
  The lvalue \<^verbatim>\<open>*p\<close>: the object at the address \<open>p\<close> holds; dereferencing \<^verbatim>\<open>nullptr\<close> is
  undefined behaviour.
\<close>

definition deref :: "pointer \<Rightarrow> failure + addr" where
  "deref p = (case p of Null \<Rightarrow> Inl UndefinedBehavior | Addr a \<Rightarrow> Inr a)"

subsection \<open>The class\<close>

text \<open>The member \<^verbatim>\<open>ptr_\<close> is the field \<open>ptr\<close>: a name of HOL cannot end in an underscore.\<close>

record optional_ref =
  ptr :: pointer

text \<open>
  The sources an \<^verbatim>\<open>optional_ref<T>\<close> is constructed from, one per constructor of the
  class that takes no template gate: nothing, \<^verbatim>\<open>std::nullopt\<close>, an lvalue \<^verbatim>\<open>T&\<close> (the
  address of the object), a \<^verbatim>\<open>T*\<close>, the literal \<^verbatim>\<open>nullptr\<close> (of type
  \<^verbatim>\<open>std::nullptr_t\<close>, for which the exactly matching overload is the deleted one), and
  another \<^verbatim>\<open>optional_ref<T>\<close> (the defaulted copy constructor).
\<close>

datatype ctor_arg =
    NoArgument
  | NulloptArg
  | LvalueArg addr
  | PointerArg pointer
  | NullptrLiteral
  | CopyArg optional_ref

fun make_optional_ref :: "ctor_arg \<Rightarrow> failure + optional_ref" where
  "make_optional_ref NoArgument = Inr \<lparr>ptr = nullptr\<rparr>"
| "make_optional_ref NulloptArg = Inr \<lparr>ptr = nullptr\<rparr>"
| "make_optional_ref (LvalueArg a) = Inr \<lparr>ptr = Addr a\<rparr>"
| "make_optional_ref (PointerArg p) = Inr \<lparr>ptr = p\<rparr>"
| "make_optional_ref NullptrLiteral = Inl IllFormed"
| "make_optional_ref (CopyArg r) = Inr \<lparr>ptr = ptr r\<rparr>"

definition has_value :: "optional_ref \<Rightarrow> bool" where
  "has_value r = (ptr r \<noteq> nullptr)"

text \<open>
  \<^verbatim>\<open>value()\<close> returns \<^verbatim>\<open>T&\<close>: the referent itself, as an address. On an empty instance
  it first runs \<^verbatim>\<open>std::optional<T>().value()\<close> for its error, and only if that call
  came back would it go on to \<^verbatim>\<open>*ptr_\<close>. The value that call would give is thrown away
  by the cast to \<^verbatim>\<open>void\<close>, so the optional is taken over \<open>unit\<close>. The method is named
  \<open>value_checked\<close> here, \<open>value\<close> being a command of Isabelle.
\<close>

definition value_checked :: "build \<Rightarrow> optional_ref \<Rightarrow> failure + addr" where
  "value_checked cfg r =
     (if ptr r \<noteq> nullptr then deref (ptr r)
      else (case std_optional_value cfg (None :: unit option) of
              Inl e \<Rightarrow> Inl e
            | Inr _ \<Rightarrow> deref (ptr r)))"

text \<open>
  \<^verbatim>\<open>value_or\<close> returns \<^verbatim>\<open>T\<close> by value: a present referent is copied into the result. The
  result therefore comes with the addresses of the objects that were copied to produce
  it. The dead \<^verbatim>\<open>if (false)\<close> block instantiates \<^verbatim>\<open>std::optional<T>::value_or(U)\<close> for its
  static assertions; \<open>conv\<close> is the conversion from \<^verbatim>\<open>U\<close> to \<^verbatim>\<open>T\<close> they ask for, \<open>None\<close>
  when the types have none.
\<close>

definition value_or ::
  "('u \<Rightarrow> 't) option \<Rightarrow> 't memory \<Rightarrow> optional_ref \<Rightarrow> 'u \<Rightarrow> failure + ('t \<times> addr list)" where
  "value_or conv mem r default_value =
     (case conv of
        None \<Rightarrow> Inl IllFormed
      | Some static_cast \<Rightarrow>
          (if ptr r \<noteq> nullptr
           then (case deref (ptr r) of Inl e \<Rightarrow> Inl e | Inr a \<Rightarrow> Inr (mem a, [a]))
           else Inr (static_cast default_value, [])))"

definition operator_star :: "build \<Rightarrow> optional_ref \<Rightarrow> failure + addr" where
  "operator_star cfg r =
     (case ABSL_HARDENING_ASSERT cfg (ptr r \<noteq> nullptr) of
        Some e \<Rightarrow> Inl e
      | None \<Rightarrow> deref (ptr r))"

definition operator_arrow :: "build \<Rightarrow> optional_ref \<Rightarrow> failure + pointer" where
  "operator_arrow cfg r =
     (case ABSL_HARDENING_ASSERT cfg (ptr r \<noteq> nullptr) of
        Some e \<Rightarrow> Inl e
      | None \<Rightarrow> Inr (ptr r))"

definition as_pointer :: "optional_ref \<Rightarrow> pointer" where
  "as_pointer r = ptr r"


subsection \<open>The conversion gate\<close>

text \<open>
  A referent type is a class type with its \<^verbatim>\<open>const\<close> and \<^verbatim>\<open>volatile\<close> qualifiers. Classes
  are numbered in the order of their definitions. A hierarchy gives each class its
  direct non-virtual bases; a base is complete before the class deriving from it, so
  only the bases with a smaller number count.
\<close>

record referent_type =
  cls :: nat
  is_const :: bool
  is_volatile :: bool

type_synonym hierarchy = "nat \<Rightarrow> nat list"

text \<open>The number of base subobjects of class \<open>b\<close> inside an object of class \<open>d\<close>.\<close>

fun base_subobjects :: "hierarchy \<Rightarrow> nat \<Rightarrow> nat \<Rightarrow> nat" where
  "base_subobjects H d b =
     (if d = b then 1
      else sum_list (map (\<lambda>x. base_subobjects H x b) (filter (\<lambda>x. x < d) (H d))))"

declare base_subobjects.simps [simp del]

text \<open>
  Modelled from the spec: \<^verbatim>\<open>std::is_convertible_v<U*, T*>\<close> is answered by the compiler and
  the standard library, which are not among the sources. A pointer to the source type
  converts implicitly to a pointer to the target type under the ordinary pointer
  conversions: identity; adding \<^verbatim>\<open>const\<close> or \<^verbatim>\<open>volatile\<close>; the upcast to a non-virtual
  base that is unambiguous (exactly one subobject of it).
\<close>

definition is_convertible_ptr :: "hierarchy \<Rightarrow> referent_type \<Rightarrow> referent_type \<Rightarrow> bool" where
  "is_convertible_ptr H U T =
     ((is_const U \<longrightarrow> is_const T) \<and> (is_volatile U \<longrightarrow> is_volatile T) \<and>
      (cls U = cls T \<or> base_subobjects H (cls U) (cls T) = 1))"

text \<open>Inside \<^verbatim>\<open>optional_ref<T>\<close>: \<^verbatim>\<open>EnableIfConvertibleFrom<U>\<close>.\<close>

definition EnableIfConvertibleFrom :: "hierarchy \<Rightarrow> referent_type \<Rightarrow> referent_type \<Rightarrow> bool" where
  "EnableIfConvertibleFrom H T U = is_convertible_ptr H U T"

text \<open>
  The implicit conversion of a \<^verbatim>\<open>U*\<close> to a \<^verbatim>\<open>T*\<close> that initialises \<^verbatim>\<open>ptr_\<close> in the
  converting constructor. A null pointer stays null; the address of an object becomes
  the address of its base subobject, which the layout places at an offset.
\<close>

definition implicit_pointer_conversion ::
  "(nat \<Rightarrow> nat \<Rightarrow> nat) \<Rightarrow> referent_type \<Rightarrow> referent_type \<Rightarrow> pointer \<Rightarrow> pointer" where
  "implicit_pointer_conversion layout U T p =
     (case p of
        Null \<Rightarrow> Null
      | Addr a \<Rightarrow> Addr (if cls U = cls T then a else a + layout (cls U) (cls T)))"

text \<open>The constructor of \<^verbatim>\<open>optional_ref<T>\<close> from an \<^verbatim>\<open>optional_ref<U>\<close>.\<close>

definition optional_ref_from_ref ::
  "hierarchy \<Rightarrow> (nat \<Rightarrow> nat \<Rightarrow> nat) \<Rightarrow> referent_type \<Rightarrow> referent_type \<Rightarrow> optional_ref
     \<Rightarrow> failure + optional_ref" where
  "optional_ref_from_ref H layout T U input =
     (if EnableIfConvertibleFrom H T U
      then Inr \<lparr>ptr = implicit_pointer_conversion layout U T (as_pointer input)\<rparr>
      else Inl IllFormed)"

subsection \<open>The comparison operators\<close>

text \<open>
  The operator \<^verbatim>\<open>==\<close> of the element types, from a \<^verbatim>\<open>T\<close> on the left and a \<^verbatim>\<open>U\<close> on the
  right, is a function to \<open>bool\<close> when \<^verbatim>\<open>t == u\<close> is a valid expression convertible to
  \<^verbatim>\<open>bool\<close>, and \<open>None\<close> otherwise. That is what
  \<^verbatim>\<open>optional_ref_internal::enable_if_equality_comparable_t<T, U>\<close> tests.
\<close>

definition enable_if_equality_comparable_t :: "('t \<Rightarrow> 'u \<Rightarrow> bool) option \<Rightarrow> bool" where
  "enable_if_equality_comparable_t eq = (eq \<noteq> None)"

definition logical_not :: "failure + bool \<Rightarrow> failure + bool" where
  "logical_not x = (case x of Inl e \<Rightarrow> Inl e | Inr v \<Rightarrow> Inr (\<not> v))"

text \<open>
  The overloads of \<^verbatim>\<open>operator==\<close> and \<^verbatim>\<open>operator!=\<close> are named after their operands, in
  order: \<open>ref\<close> for an \<^verbatim>\<open>optional_ref\<close>, \<open>nullopt\<close> for \<^verbatim>\<open>std::nullopt_t\<close>, \<open>val\<close> for a
  \<^verbatim>\<open>const T&\<close> or \<^verbatim>\<open>const U&\<close>. The four overloads against \<^verbatim>\<open>std::nullopt\<close> return
  \<^verbatim>\<open>!a.has_value()\<close>, \<^verbatim>\<open>!b.has_value()\<close>, \<^verbatim>\<open>a.has_value()\<close> and \<^verbatim>\<open>b.has_value()\<close>.
\<close>

definition eq_ref_nullopt :: "optional_ref \<Rightarrow> bool" where
  "eq_ref_nullopt a = (\<not> has_value a)"

definition eq_nullopt_ref :: "optional_ref \<Rightarrow> bool" where
  "eq_nullopt_ref b = (\<not> has_value b)"

definition ne_ref_nullopt :: "optional_ref \<Rightarrow> bool" where
  "ne_ref_nullopt a = has_value a"

definition ne_nullopt_ref :: "optional_ref \<Rightarrow> bool" where
  "ne_nullopt_ref b = has_value b"

text \<open>\<^verbatim>\<open>operator==(const T& a, optional_ref<U> b)\<close>: \<^verbatim>\<open>b.has_value() && a == *b\<close>.\<close>

definition eq_val_ref ::
  "build \<Rightarrow> ('t \<Rightarrow> 'u \<Rightarrow> bool) option \<Rightarrow> 'u memory \<Rightarrow> 't \<Rightarrow> optional_ref \<Rightarrow> failure + bool" where
  "eq_val_ref cfg eqTU memU a b =
     (case eqTU of
        None \<Rightarrow> Inl IllFormed
      | Some eq \<Rightarrow>
          (if has_value b
           then (case operator_star cfg b of Inl e \<Rightarrow> Inl e | Inr p \<Rightarrow> Inr (eq a (memU p)))
           else Inr False))"

text \<open>
  \<^verbatim>\<open>operator==(optional_ref<T> a, const U& b)\<close>: gated on \<^verbatim>\<open>T == U\<close>, its body is
  \<^verbatim>\<open>b == a\<close>, the overload above with a \<^verbatim>\<open>U\<close> on the left, which is gated on \<^verbatim>\<open>U == T\<close>.
\<close>

definition eq_ref_val ::
  "build \<Rightarrow> ('t \<Rightarrow> 'u \<Rightarrow> bool) option \<Rightarrow> ('u \<Rightarrow> 't \<Rightarrow> bool) option \<Rightarrow> 't memory
     \<Rightarrow> optional_ref \<Rightarrow> 'u \<Rightarrow> failure + bool" where
  "eq_ref_val cfg eqTU eqUT memT a b =
     (if enable_if_equality_comparable_t eqTU then eq_val_ref cfg eqUT memT b a
      else Inl IllFormed)"

text \<open>
  \<^verbatim>\<open>operator==(optional_ref<T> a, optional_ref<U> b)\<close>:
  \<^verbatim>\<open>a.has_value() ? *a == b : !b.has_value()\<close>. Which overload the call \<^verbatim>\<open>*a == b\<close> in its
  body reaches depends on the referent type \<^verbatim>\<open>T\<close> of the left operand:
  \<^item> \<open>Plain\<close>: \<^verbatim>\<open>T\<close> is not a specialisation of \<^verbatim>\<open>optional_ref\<close>. The only candidate is
    \<^verbatim>\<open>operator==(const T&, optional_ref<U>)\<close>, the overload for a value and a
    reference.
  \<^item> \<open>Nested s\<close>: \<^verbatim>\<open>T\<close> is \<^verbatim>\<open>optional_ref<T'>\<close>, with \<^verbatim>\<open>T'\<close> of shape \<open>s\<close>. Both operands of
    \<^verbatim>\<open>*a == b\<close> are optional references then, and of the candidates the template for
    two references is the most specialised: the call is this operator again, on the
    referent of \<open>a\<close> and \<open>b\<close>.
  Objects that are optional references are read through the memory \<open>refs\<close>, objects of
  the innermost referent type \<^verbatim>\<open>X\<close> through \<open>memX\<close>. The template has no gate of its own,
  but its body compiles only where, innermost, the overload for a value and a
  reference does, which is gated on \<^verbatim>\<open>X == U\<close>.
\<close>

datatype referent_shape = Plain | Nested referent_shape

fun eq_ref_ref ::
  "referent_shape \<Rightarrow> build \<Rightarrow> ('x \<Rightarrow> 'u \<Rightarrow> bool) option \<Rightarrow> optional_ref memory
     \<Rightarrow> 'x memory \<Rightarrow> 'u memory \<Rightarrow> optional_ref \<Rightarrow> optional_ref \<Rightarrow> failure + bool" where
  "eq_ref_ref Plain cfg eqXU refs memX memU a b =
     (if \<not> enable_if_equality_comparable_t eqXU then Inl IllFormed
      else if has_value a
      then (case operator_star cfg a of
              Inl e \<Rightarrow> Inl e
            | Inr p \<Rightarrow> eq_val_ref cfg eqXU memU (memX p) b)
      else Inr (\<not> has_value b))"
| "eq_ref_ref (Nested s) cfg eqXU refs memX memU a b =
     (if \<not> enable_if_equality_comparable_t eqXU then Inl IllFormed
      else if has_value a
      then (case operator_star cfg a of
              Inl e \<Rightarrow> Inl e
            | Inr p \<Rightarrow> eq_ref_ref s cfg eqXU refs memX memU (refs p) b)
      else Inr (\<not> has_value b))"

text \<open>
  The three templated overloads of \<^verbatim>\<open>operator!=\<close> all have the body \<^verbatim>\<open>!(a == b)\<close>; the two
  that take a value are gated on \<^verbatim>\<open>T == U\<close>.
\<close>

definition ne_ref_ref ::
  "referent_shape \<Rightarrow> build \<Rightarrow> ('x \<Rightarrow> 'u \<Rightarrow> bool) option \<Rightarrow> optional_ref memory
     \<Rightarrow> 'x memory \<Rightarrow> 'u memory \<Rightarrow> optional_ref \<Rightarrow> optional_ref \<Rightarrow> failure + bool" where
  "ne_ref_ref shape cfg eqXU refs memX memU a b =
     logical_not (eq_ref_ref shape cfg eqXU refs memX memU a b)"

definition ne_ref_val ::
  "build \<Rightarrow> ('t \<Rightarrow> 'u \<Rightarrow> bool) option \<Rightarrow> ('u \<Rightarrow> 't \<Rightarrow> bool) option \<Rightarrow> 't memory
     \<Rightarrow> optional_ref \<Rightarrow> 'u \<Rightarrow> failure + bool" where
  "ne_ref_val cfg eqTU eqUT memT a b =
     (if enable_if_equality_comparable_t eqTU
      then logical_not (eq_ref_val cfg eqTU eqUT memT a b)
      else Inl IllFormed)"

definition ne_val_ref ::
  "build \<Rightarrow> ('t \<Rightarrow> 'u \<Rightarrow> bool) option \<Rightarrow> 'u memory \<Rightarrow> 't \<Rightarrow> optional_ref \<Rightarrow> failure + bool" where
  "ne_val_ref cfg eqTU memU a b =
     (if enable_if_equality_comparable_t eqTU
      then logical_not (eq_val_ref cfg eqTU memU a b)
      else Inl IllFormed)"

subsection \<open>Fixtures of the unit tests\<close>

text \<open>
  The test file declares \<^verbatim>\<open>class TestInterface {}\<close> and
  \<^verbatim>\<open>class TestDerivedClass : public TestInterface {}\<close>: class 0 and class 1, the second
  with the first as its only base.
\<close>

definition test_hierarchy :: hierarchy where
  "test_hierarchy d = (if d = 1 then [0] else [])"

definition TestInterface :: referent_type where
  "TestInterface = \<lparr>cls = 0, is_const = False, is_volatile = False\<rparr>"

definition TestDerivedClass :: referent_type where
  "TestDerivedClass = \<lparr>cls = 1, is_const = False, is_volatile = False\<rparr>"

text \<open>A layout for single inheritance from an empty base: the base subobject sits at offset 0.\<close>

definition test_layout :: "nat \<Rightarrow> nat \<Rightarrow> nat" where
  "test_layout d b = 0"

definition exceptions_build :: build where
  "exceptions_build = \<lparr>have_exceptions = True, hardened = False\<rparr>"

definition no_exceptions_build :: build where
  "no_exceptions_build = \<lparr>have_exceptions = False, hardened = True\<rparr>"

section \<open>Properties\<close>

subsection \<open>Auxiliary facts\<close>

lemma has_value_iff_Addr: "has_value r = (\<exists>a. ptr r = Addr a)"
  by (cases "ptr r") (simp_all add: has_value_def nullptr_def)

lemma operator_star_present: "ptr r = Addr a \<Longrightarrow> operator_star cfg r = Inr a"
  by (simp add: operator_star_def ABSL_HARDENING_ASSERT_def deref_def nullptr_def)

lemma operator_arrow_present: "ptr r = Addr a \<Longrightarrow> operator_arrow cfg r = Inr (Addr a)"
  by (simp add: operator_arrow_def ABSL_HARDENING_ASSERT_def nullptr_def)

lemma eq_val_ref_comparable:
  "eq_val_ref cfg (Some eq) memU v b = Inr (\<exists>q. as_pointer b = Addr q \<and> eq v (memU q))"
  by (cases "ptr b")
     (simp_all add: eq_val_ref_def has_value_def nullptr_def as_pointer_def operator_star_present)

lemma eq_val_ref_not_comparable: "eq_val_ref cfg None memU v b = Inl IllFormed"
  by (simp add: eq_val_ref_def)

text \<open>A class has no base subobject of a class defined after it.\<close>

lemma base_subobjects_later: "d < b \<Longrightarrow> base_subobjects H d b = 0"
proof (induction H d b rule: base_subobjects.induct)
  case (1 H d b)
  have "\<And>x. x \<in> set (filter (\<lambda>x. x < d) (H d)) \<Longrightarrow> base_subobjects H x b = 0"
    using 1 by auto
  then have "sum_list (map (\<lambda>x. base_subobjects H x b) (filter (\<lambda>x. x < d) (H d))) = 0"
    by (simp del: set_filter)
  with 1(2) show ?case
    by (subst base_subobjects.simps) simp
qed

text \<open>So derivation is not symmetric: a proper base of \<open>d\<close> does not have \<open>d\<close> as a base.\<close>

lemma proper_base_not_derived:
  assumes "d \<noteq> b" and "0 < base_subobjects H d b"
  shows "base_subobjects H b d = 0"
proof -
  have "\<not> d < b"
    using assms(2) base_subobjects_later [of d b H] by auto
  with assms(1) have "b < d" by simp
  then show ?thesis by (rule base_subobjects_later)
qed

lemma optional_ref_from_ref_accepted:
  "(\<exists>r. optional_ref_from_ref H layout T U input = Inr r) \<longleftrightarrow> is_convertible_ptr H U T"
  by (simp add: optional_ref_from_ref_def EnableIfConvertibleFrom_def)

lemma optional_ref_from_ref_rejected:
  "\<not> is_convertible_ptr H U T \<Longrightarrow> optional_ref_from_ref H layout T U input = Inl IllFormed"
  by (simp add: optional_ref_from_ref_def EnableIfConvertibleFrom_def)

lemma test_derived_has_interface: "base_subobjects test_hierarchy 1 0 = 1"
  by (simp add: base_subobjects.simps test_hierarchy_def)

subsection \<open>Equality of two optional references\<close>

text \<open>
  Where the referent type of the left operand is not itself an optional reference,
  the operator for two references compares values and not addresses: the result is
  true exactly when both are empty, or both are present and the referents satisfy the
  comparison of the elements.
\<close>

lemma eq_ref_ref_plain_value_comparison:
  "eq_ref_ref Plain cfg (Some eq) refs memT memU a b =
     Inr ((\<not> has_value a \<and> \<not> has_value b) \<or>
          (\<exists>p q. as_pointer a = Addr p \<and> as_pointer b = Addr q \<and> eq (memT p) (memU q)))"
  by (cases "ptr a"; cases "ptr b")
     (auto simp add: enable_if_equality_comparable_t_def has_value_def nullptr_def
        as_pointer_def operator_star_present eq_val_ref_comparable)

text \<open>
  Over a referent type that is an optional reference, the operator looks through the
  present left operand and compares its referent with the right operand.
\<close>

lemma eq_ref_ref_nested_looks_through:
  "as_pointer a = Addr p \<Longrightarrow>
     eq_ref_ref (Nested s) cfg (Some eq) refs memX memU a b
       = eq_ref_ref s cfg (Some eq) refs memX memU (refs p) b"
  by (simp add: enable_if_equality_comparable_t_def has_value_def nullptr_def as_pointer_def
        operator_star_present)

text \<open>
  Claim C1. Equality between two optional references, possibly over different referent
  types, compares values and not addresses: \<^verbatim>\<open>a == b\<close> holds if and only if both are
  empty, or both are present and the referents satisfy \<^verbatim>\<open>*a == *b\<close>; in particular an
  empty and a present instance are never equal. The header breaks this for a referent
  type that is itself an optional reference. Let \<^verbatim>\<open>inner\<close> be an empty
  \<^verbatim>\<open>optional_ref<int>\<close> stored at address 1, \<^verbatim>\<open>a\<close> an \<^verbatim>\<open>optional_ref<optional_ref<int>>\<close>
  bound to \<^verbatim>\<open>inner\<close>, and \<^verbatim>\<open>b\<close> an empty \<^verbatim>\<open>optional_ref<int>\<close>. Then \<^verbatim>\<open>a\<close> is present, \<^verbatim>\<open>b\<close> is
  empty, and \<^verbatim>\<open>a == b\<close> is true: \<^verbatim>\<open>*a == b\<close> is answered by the template for two
  references, which finds \<^verbatim>\<open>inner\<close> empty and returns \<^verbatim>\<open>!b.has_value()\<close>.
\<close>

theorem eq_ref_ref_nested_present_equals_empty:
  "has_value \<lparr>ptr = Addr 1\<rparr> \<and> \<not> has_value \<lparr>ptr = Null\<rparr>
   \<and> eq_ref_ref (Nested Plain) exceptions_build (Some (\<lambda>(x :: int) (y :: int). x = y))
        (\<lambda>_. \<lparr>ptr = Null\<rparr>) (\<lambda>_. 5) (\<lambda>_. 5) \<lparr>ptr = Addr 1\<rparr> \<lparr>ptr = Null\<rparr> = Inr True"
  by (simp add: enable_if_equality_comparable_t_def has_value_def nullptr_def
        operator_star_present)

subsection \<open>The checked accessor\<close>

text \<open>
  Claim C2. On a present instance \<^verbatim>\<open>value()\<close> succeeds and returns the referent itself
  (the stored address, as a \<^verbatim>\<open>T&\<close>). On an empty instance it raises the error of
  \<^verbatim>\<open>value()\<close> on an empty \<^verbatim>\<open>std::optional\<close>: a catchable \<^verbatim>\<open>bad_optional_access\<close> in a build
  with exceptions, termination of the process in a build without; it never returns a
  value there. The accessor takes and gives back no memory: it has no side effect.
\<close>

theorem value_checked_referent_or_empty_access:
  "(as_pointer r = Addr a \<longrightarrow> value_checked cfg r = Inr a)
   \<and> (has_value r \<longrightarrow> (\<exists>a. as_pointer r = Addr a \<and> value_checked cfg r = Inr a))
   \<and> (\<not> has_value r \<longrightarrow>
        value_checked cfg r = Inl (if have_exceptions cfg then BadOptionalAccess else Terminated)
        \<and> (\<exists>e. std_optional_value cfg (None :: unit option) = Inl e \<and> value_checked cfg r = Inl e)
        \<and> (\<forall>a. value_checked cfg r \<noteq> Inr a))"
  by (cases "ptr r")
     (simp_all add: value_checked_def std_optional_value_def deref_def has_value_def nullptr_def
        as_pointer_def)

theorem value_checked_referent_or_empty_access_witness:
  "(has_value \<lparr>ptr = Addr 7\<rparr> \<and> value_checked exceptions_build \<lparr>ptr = Addr 7\<rparr> = Inr 7)
   \<and> (\<not> has_value \<lparr>ptr = Null\<rparr>
        \<and> value_checked exceptions_build \<lparr>ptr = Null\<rparr> = Inl BadOptionalAccess
        \<and> value_checked no_exceptions_build \<lparr>ptr = Null\<rparr> = Inl Terminated)"
  using
    value_checked_referent_or_empty_access [where r = "\<lparr>ptr = Addr 7\<rparr>" and a = 7
      and cfg = exceptions_build]
    value_checked_referent_or_empty_access [where r = "\<lparr>ptr = Null\<rparr>" and a = 7
      and cfg = exceptions_build]
    value_checked_referent_or_empty_access [where r = "\<lparr>ptr = Null\<rparr>" and a = 7
      and cfg = no_exceptions_build]
  by (simp add: has_value_def nullptr_def as_pointer_def exceptions_build_def
        no_exceptions_build_def)

subsection \<open>Construction from an address\<close>

text \<open>
  Claim C3. Construction from a \<^verbatim>\<open>T*\<close> stores the pointer: the instance is present if
  and only if the pointer is not null, and empty if and only if it is null.
  Construction from the bare literal \<^verbatim>\<open>nullptr\<close> is rejected by the compiler (the
  overload is deleted); the empty marker \<^verbatim>\<open>std::nullopt\<close> gives the empty instance.
\<close>

theorem pointer_construction_null_iff_empty:
  "(\<exists>r. make_optional_ref (PointerArg p) = Inr r \<and> as_pointer r = p
        \<and> (has_value r \<longleftrightarrow> p \<noteq> nullptr) \<and> (\<not> has_value r \<longleftrightarrow> p = nullptr))
   \<and> make_optional_ref NullptrLiteral = Inl IllFormed
   \<and> (\<exists>r. make_optional_ref NulloptArg = Inr r \<and> \<not> has_value r)"
  by (simp add: has_value_def as_pointer_def)

theorem pointer_construction_null_iff_empty_witness:
  "make_optional_ref (PointerArg (Addr 3)) = Inr \<lparr>ptr = Addr 3\<rparr> \<and> has_value \<lparr>ptr = Addr 3\<rparr>
   \<and> make_optional_ref (PointerArg nullptr) = Inr \<lparr>ptr = nullptr\<rparr> \<and> \<not> has_value \<lparr>ptr = nullptr\<rparr>
   \<and> make_optional_ref NullptrLiteral = Inl IllFormed"
  using pointer_construction_null_iff_empty [of "Addr 3"]
    pointer_construction_null_iff_empty [of nullptr]
  by (simp add: has_value_def nullptr_def)

subsection \<open>Conversion between instantiations\<close>

text \<open>
  Claim C4. The constructor of an \<^verbatim>\<open>optional_ref<T>\<close> from an \<^verbatim>\<open>optional_ref<U>\<close> exists if
  and only if \<^verbatim>\<open>U*\<close> converts implicitly to \<^verbatim>\<open>T*\<close>. So the identity conversion
  compiles, adding \<^verbatim>\<open>const\<close> compiles, and the upcast from a class to an unambiguous
  non-virtual base compiles (with qualifiers kept or added); in the reverse direction,
  dropping \<^verbatim>\<open>const\<close> never compiles and the conversion from a proper base to a class
  derived from it never compiles.
\<close>

theorem converting_constructor_is_covariant:
  "((\<exists>r. optional_ref_from_ref H layout T U input = Inr r) \<longleftrightarrow> is_convertible_ptr H U T)
   \<and> (\<not> is_convertible_ptr H U T \<longrightarrow> optional_ref_from_ref H layout T U input = Inl IllFormed)
   \<and> optional_ref_from_ref H layout T T input = Inr input
   \<and> (\<exists>r. optional_ref_from_ref H layout (T\<lparr>is_const := True\<rparr>) T input = Inr r)
   \<and> ((cls U = cls T \<or> base_subobjects H (cls U) (cls T) = 1) \<and> (is_const U \<longrightarrow> is_const T)
        \<and> (is_volatile U \<longrightarrow> is_volatile T)
      \<longrightarrow> (\<exists>r. optional_ref_from_ref H layout T U input = Inr r))
   \<and> (is_const U \<and> \<not> is_const T \<longrightarrow> optional_ref_from_ref H layout T U input = Inl IllFormed)
   \<and> (cls U \<noteq> cls T \<and> 0 < base_subobjects H (cls U) (cls T)
      \<longrightarrow> optional_ref_from_ref H layout U T input = Inl IllFormed)"
proof -
  have gate: "(\<exists>r. optional_ref_from_ref H layout T U input = Inr r) \<longleftrightarrow> is_convertible_ptr H U T"
    by (rule optional_ref_from_ref_accepted)
  have same: "optional_ref_from_ref H layout T T input = Inr input"
    by (cases "ptr input")
       (simp_all add: optional_ref_from_ref_def EnableIfConvertibleFrom_def is_convertible_ptr_def
          implicit_pointer_conversion_def as_pointer_def)
  have add_const: "\<exists>r. optional_ref_from_ref H layout (T\<lparr>is_const := True\<rparr>) T input = Inr r"
    by (simp add: optional_ref_from_ref_def EnableIfConvertibleFrom_def is_convertible_ptr_def)
  have upcast: "(cls U = cls T \<or> base_subobjects H (cls U) (cls T) = 1)
        \<and> (is_const U \<longrightarrow> is_const T) \<and> (is_volatile U \<longrightarrow> is_volatile T)
      \<longrightarrow> (\<exists>r. optional_ref_from_ref H layout T U input = Inr r)"
    unfolding gate by (simp add: is_convertible_ptr_def)
  have drop_const:
    "is_const U \<and> \<not> is_const T \<longrightarrow> optional_ref_from_ref H layout T U input = Inl IllFormed"
    by (simp add: optional_ref_from_ref_rejected is_convertible_ptr_def)
  have downcast: "cls U \<noteq> cls T \<and> 0 < base_subobjects H (cls U) (cls T)
      \<longrightarrow> optional_ref_from_ref H layout U T input = Inl IllFormed"
  proof (intro impI, elim conjE)
    assume ne: "cls U \<noteq> cls T" and base: "0 < base_subobjects H (cls U) (cls T)"
    have "base_subobjects H (cls T) (cls U) = 0"
      using ne base by (rule proper_base_not_derived)
    with ne have "\<not> is_convertible_ptr H T U"
      by (auto simp add: is_convertible_ptr_def)
    then show "optional_ref_from_ref H layout U T input = Inl IllFormed"
      by (rule optional_ref_from_ref_rejected)
  qed
  show ?thesis
    using gate same add_const upcast drop_const downcast
      optional_ref_from_ref_rejected [of H U T layout input]
    by blast
qed

text \<open>
  The tests \<^verbatim>\<open>BaseDerivedConstConvertible\<close> and \<^verbatim>\<open>ConstConvertible\<close>: an
  \<^verbatim>\<open>optional_ref<TestDerivedClass>\<close> converts to an \<^verbatim>\<open>optional_ref<const TestInterface>\<close>, and
  neither that conversion reversed nor the one from \<^verbatim>\<open>const TestInterface\<close> to
  \<^verbatim>\<open>TestInterface\<close> compiles.
\<close>

theorem converting_constructor_is_covariant_witness:
  "(base_subobjects test_hierarchy (cls TestDerivedClass) (cls TestInterface) = 1
      \<and> optional_ref_from_ref test_hierarchy test_layout (TestInterface\<lparr>is_const := True\<rparr>)
           TestDerivedClass \<lparr>ptr = Addr 8\<rparr> = Inr \<lparr>ptr = Addr 8\<rparr>)
   \<and> (cls TestDerivedClass \<noteq> cls TestInterface
      \<and> optional_ref_from_ref test_hierarchy test_layout TestDerivedClass
           (TestInterface\<lparr>is_const := True\<rparr>) \<lparr>ptr = Addr 8\<rparr> = Inl IllFormed)
   \<and> (is_const (TestInterface\<lparr>is_const := True\<rparr>) \<and> \<not> is_const TestInterface
      \<and> \<not> is_convertible_ptr test_hierarchy (TestInterface\<lparr>is_const := True\<rparr>) TestInterface
      \<and> optional_ref_from_ref test_hierarchy test_layout TestInterface
           (TestInterface\<lparr>is_const := True\<rparr>) \<lparr>ptr = Addr 8\<rparr> = Inl IllFormed)"
proof -
  let ?cT = "TestInterface\<lparr>is_const := True\<rparr>"
  let ?r = "\<lparr>ptr = Addr 8\<rparr>"
  note up_inst = converting_constructor_is_covariant [where H = test_hierarchy
      and layout = test_layout and T = ?cT and U = TestDerivedClass and input = ?r]
  note drop_inst = converting_constructor_is_covariant [where H = test_hierarchy
      and layout = test_layout and T = TestInterface and U = ?cT and input = ?r]
  have base: "base_subobjects test_hierarchy (cls TestDerivedClass) (cls TestInterface) = 1"
    using test_derived_has_interface by (simp add: TestDerivedClass_def TestInterface_def)
  have ne: "cls TestDerivedClass \<noteq> cls TestInterface"
    by (simp add: TestDerivedClass_def TestInterface_def)
  have quals: "is_const ?cT \<and> \<not> is_const TestInterface \<and> \<not> is_const TestDerivedClass
      \<and> \<not> is_volatile TestDerivedClass"
    by (simp add: TestDerivedClass_def TestInterface_def)
  have cls_cT: "cls ?cT = cls TestInterface"
    by simp
  have "\<exists>r. optional_ref_from_ref test_hierarchy test_layout ?cT TestDerivedClass ?r = Inr r"
    using up_inst base quals cls_cT by metis
  then have up: "optional_ref_from_ref test_hierarchy test_layout ?cT TestDerivedClass ?r = Inr ?r"
    using ne
    by (auto simp add: optional_ref_from_ref_def implicit_pointer_conversion_def as_pointer_def
          test_layout_def split: if_splits)
  have down: "optional_ref_from_ref test_hierarchy test_layout TestDerivedClass ?cT ?r
      = Inl IllFormed"
    using up_inst base ne cls_cT by (metis zero_less_one)
  have drop: "optional_ref_from_ref test_hierarchy test_layout TestInterface ?cT ?r
      = Inl IllFormed"
    using drop_inst quals by blast
  have not_conv: "\<not> is_convertible_ptr test_hierarchy ?cT TestInterface"
    using quals by (simp add: is_convertible_ptr_def)
  show ?thesis
    using base ne quals up down drop not_conv by simp
qed

subsection \<open>The accessors that return a value\<close>

text \<open>
  Claim C5. Where the default converts to \<^verbatim>\<open>T\<close>, \<^verbatim>\<open>value_or(d)\<close> returns the value of the
  referent when the instance is present and the converted default when it is empty,
  and it always returns: it has no failing outcome.
\<close>

theorem value_or_referent_or_default:
  "(as_pointer r = Addr a \<longrightarrow> value_or (Some conv) mem r d = Inr (mem a, [a]))
   \<and> (\<not> has_value r \<longrightarrow> value_or (Some conv) mem r d = Inr (conv d, []))
   \<and> (\<exists>v cs. value_or (Some conv) mem r d = Inr (v, cs))"
  by (cases "ptr r")
     (simp_all add: value_or_def deref_def has_value_def nullptr_def as_pointer_def)

text \<open>The tests \<^verbatim>\<open>ValueOrWhenHasValue\<close> and \<^verbatim>\<open>ValueOrWhenEmpty\<close>.\<close>

theorem value_or_referent_or_default_witness:
  "(as_pointer \<lparr>ptr = Addr 4\<rparr> = Addr 4
      \<and> value_or (Some (\<lambda>d :: int. d)) (\<lambda>_. 5) \<lparr>ptr = Addr 4\<rparr> 2 = Inr (5, [4]))
   \<and> (\<not> has_value \<lparr>ptr = Null\<rparr>
      \<and> value_or (Some (\<lambda>d :: int. d)) (\<lambda>_. 5) \<lparr>ptr = Null\<rparr> 2 = Inr (2, []))"
  using
    value_or_referent_or_default [where r = "\<lparr>ptr = Addr 4\<rparr>" and a = 4
      and conv = "\<lambda>d :: int. d" and mem = "\<lambda>_. 5" and d = 2]
    value_or_referent_or_default [where r = "\<lparr>ptr = Null\<rparr>" and a = 4
      and conv = "\<lambda>d :: int. d" and mem = "\<lambda>_. 5" and d = 2]
  by (simp add: has_value_def nullptr_def as_pointer_def)




subsection \<open>The comparison protocol\<close>

text \<open>
  Claim C7. Each inequality operator returns the negation of the matching equality
  operator, for the five operand pairs: instance and empty marker in either order,
  two instances, instance and value, value and instance. Where the equality does not
  compile, neither does the inequality.
\<close>

theorem inequality_negates_equality:
  "ne_ref_nullopt a = (\<not> eq_ref_nullopt a)
   \<and> ne_nullopt_ref a = (\<not> eq_nullopt_ref a)
   \<and> ne_ref_ref shape cfg eqTU refs memT memU a b
        = logical_not (eq_ref_ref shape cfg eqTU refs memT memU a b)
   \<and> ne_ref_val cfg eqTU eqUT memT a u = logical_not (eq_ref_val cfg eqTU eqUT memT a u)
   \<and> ne_val_ref cfg eqTU memU t b = logical_not (eq_val_ref cfg eqTU memU t b)
   \<and> logical_not (Inr x) = Inr (\<not> x)
   \<and> logical_not (Inl e) = Inl e"
  by (cases eqTU)
     (simp_all add: ne_ref_nullopt_def eq_ref_nullopt_def ne_nullopt_ref_def eq_nullopt_ref_def
        ne_ref_ref_def ne_ref_val_def ne_val_ref_def eq_ref_val_def eq_val_ref_not_comparable
        enable_if_equality_comparable_t_def logical_not_def)

text \<open>The test \<^verbatim>\<open>SimpleType\<close>: \<^verbatim>\<open>EXPECT_NE(ref, empty_ref)\<close> with \<^verbatim>\<open>val = 5\<close>.\<close>

theorem inequality_negates_equality_witness:
  "eq_ref_ref Plain exceptions_build (Some (\<lambda>(x :: int) (y :: int). x = y))
      (\<lambda>_. \<lparr>ptr = Null\<rparr>) (\<lambda>_. 5) (\<lambda>_. 5) \<lparr>ptr = Addr 1\<rparr> \<lparr>ptr = Null\<rparr> = Inr False
   \<and> ne_ref_ref Plain exceptions_build (Some (\<lambda>(x :: int) (y :: int). x = y))
      (\<lambda>_. \<lparr>ptr = Null\<rparr>) (\<lambda>_. 5) (\<lambda>_. 5) \<lparr>ptr = Addr 1\<rparr> \<lparr>ptr = Null\<rparr> = Inr True
   \<and> ne_ref_nullopt \<lparr>ptr = Addr 1\<rparr>"
proof -
  note inst = inequality_negates_equality [where a = "\<lparr>ptr = Addr 1\<rparr>" and b = "\<lparr>ptr = Null\<rparr>"
      and shape = Plain and refs = "\<lambda>_. \<lparr>ptr = Null\<rparr>"
      and cfg = exceptions_build and eqTU = "Some (\<lambda>(x :: int) (y :: int). x = y)"
      and memT = "\<lambda>_. 5" and memU = "\<lambda>_. 5" and x = False]
  have eq: "eq_ref_ref Plain exceptions_build (Some (\<lambda>(x :: int) (y :: int). x = y))
      (\<lambda>_. \<lparr>ptr = Null\<rparr>) (\<lambda>_. 5) (\<lambda>_. 5) \<lparr>ptr = Addr 1\<rparr> \<lparr>ptr = Null\<rparr> = Inr False"
    by (simp add: enable_if_equality_comparable_t_def has_value_def nullptr_def
          operator_star_present eq_val_ref_def)
  have nul: "\<not> eq_ref_nullopt \<lparr>ptr = Addr 1\<rparr>"
    by (simp add: eq_ref_nullopt_def has_value_def nullptr_def)
  show ?thesis
    using inst eq nul by simp
qed

text \<open>
  Claim C8. A value compared with an optional reference: \<^verbatim>\<open>v == ref\<close> holds if and only
  if \<^verbatim>\<open>ref\<close> is present and \<^verbatim>\<open>v == *ref\<close>; the overload for the other operand order
  gives the same condition. Both overloads compile only for element types whose
  \<^verbatim>\<open>t == u\<close> is a valid expression convertible to \<^verbatim>\<open>bool\<close>. Comparison with the empty
  marker, in either order, is decided by emptiness alone.
\<close>

theorem value_comparison_present_and_equal:
  "eq_val_ref cfg (Some eqTU) memU t b
      = Inr (has_value b \<and> (\<exists>q. as_pointer b = Addr q \<and> eqTU t (memU q)))
   \<and> eq_ref_val cfg (Some eqTU) (Some eqUT) memT a u
      = Inr (has_value a \<and> (\<exists>p. as_pointer a = Addr p \<and> eqUT u (memT p)))
   \<and> ((\<exists>x. eq_val_ref cfg eqTU' memU t b = Inr x) \<longrightarrow> enable_if_equality_comparable_t eqTU')
   \<and> ((\<exists>x. eq_ref_val cfg eqTU' eqUT' memT a u = Inr x)
        \<longrightarrow> enable_if_equality_comparable_t eqTU')
   \<and> eq_ref_nullopt a = (\<not> has_value a)
   \<and> eq_nullopt_ref a = (\<not> has_value a)"
  by (cases eqTU')
     (auto simp add: eq_val_ref_comparable eq_val_ref_not_comparable eq_ref_val_def
        eq_ref_nullopt_def eq_nullopt_ref_def enable_if_equality_comparable_t_def
        has_value_iff_Addr as_pointer_def)

text \<open>The test \<^verbatim>\<open>SimpleType\<close>: \<^verbatim>\<open>EXPECT_EQ(val, ref)\<close> and \<^verbatim>\<open>EXPECT_EQ(ref, val)\<close> with \<^verbatim>\<open>val = 5\<close>.\<close>

theorem value_comparison_present_and_equal_witness:
  "eq_val_ref exceptions_build (Some (\<lambda>(x :: int) (y :: int). x = y)) (\<lambda>_. 5) 5
      \<lparr>ptr = Addr 1\<rparr> = Inr True
   \<and> eq_ref_val exceptions_build (Some (\<lambda>(x :: int) (y :: int). x = y))
      (Some (\<lambda>(x :: int) (y :: int). x = y)) (\<lambda>_. 5) \<lparr>ptr = Addr 1\<rparr> 5 = Inr True
   \<and> enable_if_equality_comparable_t (Some (\<lambda>(x :: int) (y :: int). x = y))
   \<and> eq_val_ref exceptions_build (Some (\<lambda>(x :: int) (y :: int). x = y)) (\<lambda>_. 5) 5
      \<lparr>ptr = Null\<rparr> = Inr False
   \<and> eq_ref_nullopt \<lparr>ptr = Null\<rparr>"
  using
    value_comparison_present_and_equal [where cfg = exceptions_build
      and eqTU = "\<lambda>(x :: int) (y :: int). x = y" and eqUT = "\<lambda>(x :: int) (y :: int). x = y"
      and eqTU' = "Some (\<lambda>(x :: int) (y :: int). x = y)"
      and eqUT' = "Some (\<lambda>(x :: int) (y :: int). x = y)"
      and memT = "\<lambda>_. 5" and memU = "\<lambda>_. 5" and t = 5 and u = 5
      and a = "\<lparr>ptr = Addr 1\<rparr>" and b = "\<lparr>ptr = Addr 1\<rparr>"]
    value_comparison_present_and_equal [where cfg = exceptions_build
      and eqTU = "\<lambda>(x :: int) (y :: int). x = y" and eqUT = "\<lambda>(x :: int) (y :: int). x = y"
      and eqTU' = "Some (\<lambda>(x :: int) (y :: int). x = y)"
      and eqUT' = "Some (\<lambda>(x :: int) (y :: int). x = y)"
      and memT = "\<lambda>_. 5" and memU = "\<lambda>_. 5" and t = 5 and u = 5
      and a = "\<lparr>ptr = Null\<rparr>" and b = "\<lparr>ptr = Null\<rparr>"]
  by (auto simp add: has_value_def nullptr_def as_pointer_def)

text \<open>
  Claim C10. The overload comparing an optional reference with a value delegates to
  the overload for the other operand order: wherever it is enabled, \<^verbatim>\<open>r == v\<close> is the
  result of \<^verbatim>\<open>v == r\<close>. Both therefore apply the comparison of the elements with the
  value on the left, \<^verbatim>\<open>v == *r\<close>, and never \<^verbatim>\<open>*r == v\<close>, so the two operand orders agree
  even when the comparison of the elements is not commutative.
\<close>

theorem reversed_value_comparison_delegates:
  "eq_ref_val cfg (Some eqTU) eqUT memT r v = eq_val_ref cfg eqUT memT v r
   \<and> eq_ref_val cfg (Some eqTU) (Some eqUT') memT r v
       = Inr (\<exists>p. as_pointer r = Addr p \<and> eqUT' v (memT p))
   \<and> eq_val_ref cfg (Some eqUT') memT v r
       = Inr (\<exists>p. as_pointer r = Addr p \<and> eqUT' v (memT p))"
  by (simp add: eq_ref_val_def enable_if_equality_comparable_t_def eq_val_ref_comparable)

text \<open>
  An element comparison that is not commutative: \<^verbatim>\<open>t == u\<close> tests \<open>t < u\<close> on a \<^verbatim>\<open>T\<close> and a
  \<^verbatim>\<open>U\<close>, \<^verbatim>\<open>u == t\<close> tests \<open>u < t\<close>. With the referent 5 and the value 3, both operand orders
  give \<open>3 < 5\<close>.
\<close>

theorem reversed_value_comparison_delegates_witness:
  "eq_ref_val exceptions_build (Some (\<lambda>(t :: int) (u :: int). t < u))
      (Some (\<lambda>(u :: int) (t :: int). u < t)) (\<lambda>_. 5) \<lparr>ptr = Addr 1\<rparr> 3 = Inr True
   \<and> eq_val_ref exceptions_build (Some (\<lambda>(u :: int) (t :: int). u < t)) (\<lambda>_. 5) 3
      \<lparr>ptr = Addr 1\<rparr> = Inr True
   \<and> \<not> ((5 :: int) < 3)"
  using
    reversed_value_comparison_delegates [where cfg = exceptions_build
      and eqTU = "\<lambda>(t :: int) (u :: int). t < u"
      and eqUT = "Some (\<lambda>(u :: int) (t :: int). u < t)"
      and eqUT' = "\<lambda>(u :: int) (t :: int). u < t"
      and memT = "\<lambda>_. 5" and r = "\<lparr>ptr = Addr 1\<rparr>" and v = 3]
  by (simp add: as_pointer_def)

subsection \<open>Coherence of the observers\<close>

text \<open>
  Claim C9. For every instance, \<^verbatim>\<open>has_value()\<close> is true exactly when \<^verbatim>\<open>as_pointer()\<close> is not
  null; and on a present instance \<^verbatim>\<open>value()\<close>, \<^verbatim>\<open>operator*\<close> and \<^verbatim>\<open>operator->\<close> all succeed
  and designate the object at the address \<^verbatim>\<open>as_pointer()\<close> returns, in every build.
\<close>

theorem observers_agree:
  "(has_value r \<longleftrightarrow> as_pointer r \<noteq> nullptr)
   \<and> (has_value r \<longrightarrow>
        (\<exists>a. as_pointer r = Addr a \<and> value_checked cfg r = Inr a
              \<and> operator_star cfg r = Inr a \<and> operator_arrow cfg r = Inr (Addr a)))"
  by (cases "ptr r")
     (simp_all add: has_value_def as_pointer_def nullptr_def value_checked_def deref_def
        operator_star_present operator_arrow_present)

theorem observers_agree_witness:
  "has_value \<lparr>ptr = Addr 9\<rparr> \<and> as_pointer \<lparr>ptr = Addr 9\<rparr> = Addr 9
   \<and> value_checked no_exceptions_build \<lparr>ptr = Addr 9\<rparr> = Inr 9
   \<and> operator_star no_exceptions_build \<lparr>ptr = Addr 9\<rparr> = Inr 9
   \<and> operator_arrow no_exceptions_build \<lparr>ptr = Addr 9\<rparr> = Inr (Addr 9)
   \<and> \<not> has_value \<lparr>ptr = Null\<rparr> \<and> as_pointer \<lparr>ptr = Null\<rparr> = nullptr"
  using observers_agree [where r = "\<lparr>ptr = Addr 9\<rparr>" and cfg = no_exceptions_build]
    observers_agree [where r = "\<lparr>ptr = Null\<rparr>" and cfg = no_exceptions_build]
  by (auto simp add: has_value_def nullptr_def as_pointer_def)

end
